theory Spec2Isabelle
  imports Complex_Main "HOL-Library.Sublist"
begin

section \<open>JavaScript values used by the render pipeline\<close>

text \<open>
  A TypeScript \<open>number\<close> is an IEEE 754 binary64 value: \<open>NaN\<close>, one of the two
  infinities, or a finite value, written \<open>Fin r\<close> with \<open>r\<close> the rational it denotes.
  The two zeros are not told apart (\<open>-0\<close> is \<open>0\<close>; nothing below divides by a zero).
\<close>

datatype jsnum = NaN | PosInf | NegInf | Fin rat

text \<open>Falsy numbers are \<open>0\<close> and \<open>NaN\<close>.\<close>

fun truthy :: "jsnum \<Rightarrow> bool" where
  "truthy NaN = False"
| "truthy (Fin r) = (r \<noteq> 0)"
| "truthy PosInf = True"
| "truthy NegInf = True"

text \<open>\<open>a || b\<close> on numbers.\<close>

definition orElse :: "jsnum \<Rightarrow> jsnum \<Rightarrow> jsnum" where
  "orElse a b = (if truthy a then a else b)"

text \<open>\<open>a <= b\<close>; a comparison with \<open>NaN\<close> is false.\<close>

fun lessEq :: "jsnum \<Rightarrow> jsnum \<Rightarrow> bool" where
  "lessEq NaN b = False"
| "lessEq a NaN = False"
| "lessEq NegInf b = True"
| "lessEq a PosInf = True"
| "lessEq (Fin a) (Fin b) = (a \<le> b)"
| "lessEq a b = False"

subsection \<open>Rounding to binary64\<close>

text \<open>
  The result of \<open>+\<close> and \<open>-\<close> is the binary64 value nearest to the exact result, ties
  going to the even significand. \<open>pow2 e\<close> is \<open>2\<close> to the power \<open>e\<close>.
\<close>

definition pow2 :: "int \<Rightarrow> rat" where
  "pow2 e = (if 0 \<le> e then 2 ^ nat e else 1 / 2 ^ nat (- e))"

text \<open>
  The binary exponent of a positive \<open>x\<close>: the \<open>e\<close> with \<open>2^e \<le> x < 2^(e+1)\<close>, kept within
  \<open>-1022\<close> (below it the values are subnormal and share one spacing) and \<open>1024\<close>.
\<close>

function expoUp :: "rat \<Rightarrow> int \<Rightarrow> int" where
  "expoUp x k = (if x < 2 \<or> 1024 \<le> k then k else expoUp (x / 2) (k + 1))"
  by pat_completeness auto
termination
  by (relation "measure (\<lambda>(x, k). nat (1024 - k))") auto

function expoDown :: "rat \<Rightarrow> int \<Rightarrow> int" where
  "expoDown x k = (if 1 \<le> x \<or> k \<le> - 1022 then k else expoDown (2 * x) (k - 1))"
  by pat_completeness auto
termination
  by (relation "measure (\<lambda>(x, k). nat (k + 1022))") auto

declare expoUp.simps [simp del]

declare expoDown.simps [simp del]

definition exponent :: "rat \<Rightarrow> int" where
  "exponent x = (if 1 \<le> x then expoUp x 0 else expoDown x 0)"

text \<open>The integer nearest to \<open>y\<close>, the even one of two that are equally near.\<close>

definition roundHalfEven :: "rat \<Rightarrow> int" where
  "roundHalfEven y =
     (if y - of_int \<lfloor>y\<rfloor> < 1 / 2 then \<lfloor>y\<rfloor>
      else if 1 / 2 < y - of_int \<lfloor>y\<rfloor> then \<lfloor>y\<rfloor> + 1
      else if even \<lfloor>y\<rfloor> then \<lfloor>y\<rfloor> else \<lfloor>y\<rfloor> + 1)"

text \<open>
  The spacing of the binary64 values around \<open>x\<close> is \<open>2^(e - 52)\<close> for the exponent
  \<open>e\<close> of \<open>|x|\<close>; \<open>nearestDouble x\<close> is the multiple of the spacing nearest to \<open>x\<close>.
\<close>

definition nearestDouble :: "rat \<Rightarrow> rat" where
  "nearestDouble x =
     (if x = 0 then 0
      else sgn x * of_int (roundHalfEven (\<bar>x\<bar> / pow2 (exponent \<bar>x\<bar> - 52)))
             * pow2 (exponent \<bar>x\<bar> - 52))"

text \<open>A rounded magnitude of \<open>2^1024\<close> or more overflows to an infinity.\<close>

definition toDouble :: "rat \<Rightarrow> jsnum" where
  "toDouble x =
     (if 2 ^ 1024 \<le> \<bar>nearestDouble x\<bar> then (if 0 < x then PosInf else NegInf)
      else Fin (nearestDouble x))"

text \<open>\<open>a - b\<close> and \<open>a + b\<close>.\<close>

fun minus_num :: "jsnum \<Rightarrow> jsnum \<Rightarrow> jsnum" where
  "minus_num NaN b = NaN"
| "minus_num a NaN = NaN"
| "minus_num (Fin a) (Fin b) = toDouble (a - b)"
| "minus_num PosInf PosInf = NaN"
| "minus_num NegInf NegInf = NaN"
| "minus_num PosInf b = PosInf"
| "minus_num NegInf b = NegInf"
| "minus_num (Fin a) PosInf = NegInf"
| "minus_num (Fin a) NegInf = PosInf"

fun plus_num :: "jsnum \<Rightarrow> jsnum \<Rightarrow> jsnum" where
  "plus_num NaN b = NaN"
| "plus_num a NaN = NaN"
| "plus_num (Fin a) (Fin b) = toDouble (a + b)"
| "plus_num PosInf NegInf = NaN"
| "plus_num NegInf PosInf = NaN"
| "plus_num PosInf b = PosInf"
| "plus_num NegInf b = NegInf"
| "plus_num (Fin a) PosInf = PosInf"
| "plus_num (Fin a) NegInf = NegInf"

text \<open>
  The text of an array index or of an array length inside a template literal: the decimal
  digits of a natural number.
\<close>

definition digitChar :: "nat \<Rightarrow> char" where
  "digitChar d = ''0123456789'' ! d"

fun showNat :: "nat \<Rightarrow> string" where
  "showNat n = (if n < 10 then [digitChar n] else showNat (n div 10) @ [digitChar (n mod 10)])"

declare showNat.simps [simp del]

text \<open>
  The text of any other number (\<open>${volume}\<close>, \<open>sampleRate.toString()\<close>,
  \<open>'pcm_s' + bitDepth\<close>) is produced by the JavaScript runtime. The conversion is a
  parameter \<open>ns\<close> of every function below that formats a number.
\<close>

type_synonym numToString = "jsnum \<Rightarrow> string"

section \<open>dspRenderer.ts: the filter graph of renderMix\<close>

record stem =
  filePath :: string
  volume :: jsnum
  pan :: jsnum
  effects :: "string list option"

text \<open>Lines 50 and 51: the two channel gains of a pan node.\<close>

definition leftGain :: "jsnum \<Rightarrow> jsnum" where
  "leftGain p = (if lessEq p (Fin 0) then Fin 1 else minus_num (Fin 1) p)"

definition rightGain :: "jsnum \<Rightarrow> jsnum" where
  "rightGain p = (if lessEq (Fin 0) p then Fin 1 else plus_num (Fin 1) p)"

text \<open>Lines 44 to 53: the filter chain of the stem at position \<open>index\<close>, before its label.\<close>

definition stemChain :: "numToString \<Rightarrow> nat \<Rightarrow> stem \<Rightarrow> string" where
  "stemChain ns index s =
     (let vol = orElse (volume s) (Fin 1);
          p = orElse (pan s) (Fin 0);
          filter0 = ''['' @ showNat index @ '':a]volume='' @ ns vol
      in if p \<noteq> Fin 0
         then filter0 @ '',pan=stereo|FL='' @ ns (leftGain p) @ ''*c0|FR=''
                @ ns (rightGain p) @ ''*c1''
         else filter0)"

text \<open>Line 55: the chain with its output label.\<close>

definition stemFilter :: "numToString \<Rightarrow> nat \<Rightarrow> stem \<Rightarrow> string" where
  "stemFilter ns index s = stemChain ns index s @ ''[a'' @ showNat index @ '']''"

text \<open>
  Lines 43 to 58: the second \<open>forEach\<close>, threading \<open>filterComplex\<close> and
  \<open>audioLabels\<close> through the stems in order.
\<close>

fun forEachStem :: "numToString \<Rightarrow> nat \<Rightarrow> stem list \<Rightarrow> string \<times> string list
    \<Rightarrow> string \<times> string list" where
  "forEachStem ns index [] acc = acc"
| "forEachStem ns index (s # rest) (filterComplex, audioLabels) =
     forEachStem ns (Suc index) rest
       (filterComplex @ stemFilter ns index s @ '';'',
        audioLabels @ [''[a'' @ showNat index @ '']''])"

text \<open>Lines 40 to 66: the whole graph description.\<close>

definition buildFilterComplex :: "numToString \<Rightarrow> stem list \<Rightarrow> string" where
  "buildFilterComplex ns stems =
     (case forEachStem ns 0 stems ('''', []) of
        (filterComplex, audioLabels) \<Rightarrow>
          if length audioLabels > 1
          then filterComplex @ concat audioLabels @ ''amix=inputs=''
                 @ showNat (length audioLabels) @ '':duration=longest[out]''
          else filterComplex @ ''[a0]acopy[out]'')"

text \<open>Lines 35 to 37: the first \<open>forEach\<close>, one \<open>-i\<close> pair for each stem.\<close>

fun pushInputs :: "string list \<Rightarrow> stem list \<Rightarrow> string list" where
  "pushInputs args [] = args"
| "pushInputs args (s # rest) = pushInputs (args @ [''-i'', filePath s]) rest"

record settings =
  sampleRate :: jsnum
  bitDepth :: jsnum
  format :: string

record renderOptions =
  stems :: "stem list"
  outputPath :: string
  settings :: settings

text \<open>Lines 32 to 80: the argument list handed to the engine.\<close>

definition buildArgs :: "numToString \<Rightarrow> renderOptions \<Rightarrow> string list" where
  "buildArgs ns opts =
     (let args0 = [''-y''];
          args1 = pushInputs args0 (stems opts);
          args2 = args1 @ [''-filter_complex'', buildFilterComplex ns (stems opts)];
          args3 = args2 @ [''-map'', ''[out]''];
          args4 = args3 @ [''-ar'', ns (sampleRate (settings opts))];
          args5 = (if format (settings opts) = ''wav''
                   then args4 @ [''-f'', ''wav'']
                          @ [''-acodec'', ''pcm_s'' @ ns (bitDepth (settings opts)) @ ''le'']
                   else if format (settings opts) = ''mp3''
                   then args4 @ [''-f'', ''mp3''] @ [''-b:a'', ''320k'']
                   else args4)
      in args5 @ [outputPath opts])"

section \<open>dspRenderer.ts: the render subprocess\<close>

datatype js_error = Error string

text \<open>
  What the child process does after \<open>spawn\<close>, as the events the handlers of lines 89,
  93 and 103 receive, in order: a chunk of bytes on stderr, the close of the process with
  its exit code (\<open>null\<close> when a signal ended it), or a launch error.
\<close>

datatype proc_event = StderrData string | Close "int option" | ErrorEvent js_error

datatype 'a promise = Pending | Resolved 'a | Rejected js_error

text \<open>\<open>resolve\<close> and \<open>reject\<close> settle a promise once; later calls change nothing.\<close>

definition settle :: "'a promise \<Rightarrow> 'a promise \<Rightarrow> 'a promise" where
  "settle p v = (if p = Pending then v else p)"

text \<open>The text of \<open>${code}\<close> for an exit code.\<close>

definition showCode :: "int option \<Rightarrow> string" where
  "showCode c = (case c of None \<Rightarrow> ''null''
     | Some i \<Rightarrow> if i < 0 then ''-'' @ showNat (nat (- i)) else showNat (nat i))"

text \<open>
  What the runtime and the configuration supply: the number formatting and the constant
  \<open>FFMPEG_PATH\<close>.
\<close>

record runtime =
  numText :: numToString
  ffmpegPath :: string

subsection \<open>Decoding a chunk of bytes\<close>

text \<open>
  Line 90: \<open>data.toString()\<close> decodes the bytes of a chunk as UTF-8. A text is written
  here by the bytes of its UTF-8 encoding, so a well-formed sequence is copied; every
  maximal ill-formed part becomes the replacement character U+FFFD, the three bytes
  \<open>EF BF BD\<close>.
\<close>

definition replacementChar :: string where
  "replacementChar = [CHR 0xEF, CHR 0xBF, CHR 0xBD]"

text \<open>
  For a lead byte: the number of continuation bytes it needs, and the range of the first
  of them. Bytes \<open>80\<close> to \<open>C1\<close> and \<open>F5\<close> to \<open>FF\<close> start no sequence.
\<close>

definition leadByte :: "nat \<Rightarrow> (nat \<times> nat \<times> nat) option" where
  "leadByte b =
     (if 0xC2 \<le> b \<and> b \<le> 0xDF then Some (1, 0x80, 0xBF)
      else if b = 0xE0 then Some (2, 0xA0, 0xBF)
      else if b = 0xED then Some (2, 0x80, 0x9F)
      else if 0xE1 \<le> b \<and> b \<le> 0xEF then Some (2, 0x80, 0xBF)
      else if b = 0xF0 then Some (3, 0x90, 0xBF)
      else if b = 0xF4 then Some (3, 0x80, 0x8F)
      else if 0xF1 \<le> b \<and> b \<le> 0xF3 then Some (3, 0x80, 0xBF)
      else None)"

text \<open>
  The decoder: \<open>seen\<close> are the bytes of the sequence under way, \<open>need\<close> the number of
  continuation bytes still missing, \<open>lower\<close> and \<open>upper\<close> the range of the next one. A
  byte that cannot continue the sequence ends it with a replacement character and is
  read again as the start of a new sequence; so does the end of the chunk.
\<close>

function utf8Decode :: "string \<Rightarrow> nat \<Rightarrow> nat \<Rightarrow> nat \<Rightarrow> string \<Rightarrow> string" where
  "utf8Decode seen need lower upper [] = (if need = 0 then [] else replacementChar)"
| "utf8Decode seen need lower upper (c # cs) =
     (if need = 0
      then (if of_char c < (0x80::nat) then c # utf8Decode [] 0 0x80 0xBF cs
            else (case leadByte (of_char c) of
                    Some (n, lo, hi) \<Rightarrow> utf8Decode [c] n lo hi cs
                  | None \<Rightarrow> replacementChar @ utf8Decode [] 0 0x80 0xBF cs))
      else if lower \<le> of_char c \<and> of_char c \<le> upper
      then (if need = 1 then seen @ [c] @ utf8Decode [] 0 0x80 0xBF cs
            else utf8Decode (seen @ [c]) (need - 1) 0x80 0xBF cs)
      else replacementChar @ utf8Decode [] 0 0x80 0xBF (c # cs))"
  by pat_completeness auto
termination
  by (relation "measure (\<lambda>(seen, need, lower, upper, cs).
        2 * length cs + (if need = 0 then 0 else 1))") auto

declare utf8Decode.simps [simp del]

definition bufferToString :: "string \<Rightarrow> string" where
  "bufferToString d = utf8Decode [] 0 0x80 0xBF d"

text \<open>The local variable \<open>stderr\<close> of line 87 and the promise of line 84.\<close>

record proc_state =
  stderrText :: string
  settled :: "string promise"

fun onEvent :: "string \<Rightarrow> proc_state \<Rightarrow> proc_event \<Rightarrow> proc_state" where
  "onEvent out st (StderrData d) = st\<lparr>stderrText := stderrText st @ bufferToString d\<rparr>"
| "onEvent out st (Close code) =
     (if code = Some 0
      then st\<lparr>settled := settle (settled st) (Resolved out)\<rparr>
      else st\<lparr>settled := settle (settled st)
             (Rejected (Error (''FFmpeg failed with code '' @ showCode code @ '': ''
                                @ stderrText st)))\<rparr>)"
| "onEvent out st (ErrorEvent e) = st\<lparr>settled := settle (settled st) (Rejected e)\<rparr>"

text \<open>
  The world around one call of \<open>renderMix\<close>: whether \<open>fs.mkdir\<close> of line 29 fails,
  what the child process does, and whether a file exists at the output path when the
  process closes.
\<close>

record env =
  mkdirError :: "js_error option"
  procEvents :: "proc_event list"
  outputFileExists :: bool

text \<open>The subprocesses a call has spawned, and the promise it returns.\<close>

record renderResult =
  spawned :: "(string \<times> string list) list"
  outcome :: "string promise"

text \<open>
  Lines 22 to 113. A failing \<open>fs.mkdir\<close> is caught at line 109 and thrown again, so the
  call is rejected with that error before anything is spawned.
\<close>

definition renderMix :: "runtime \<Rightarrow> env \<Rightarrow> renderOptions \<Rightarrow> renderResult" where
  "renderMix rt world opts =
     (case mkdirError world of
        Some e \<Rightarrow> \<lparr>spawned = [], outcome = Rejected e\<rparr>
      | None \<Rightarrow>
          (let args = buildArgs (numText rt) opts;
               st = foldl (onEvent (outputPath opts))
                      \<lparr>stderrText = '''', settled = Pending\<rparr> (procEvents world)
           in \<lparr>spawned = [(ffmpegPath rt, args)], outcome = settled st\<rparr>))"

section \<open>AudioProcessor.analyzeAudio: the metadata probe\<close>

text \<open>
  A value that \<open>JSON.parse\<close> returns. A value read from a property is a \<open>json option\<close>,
  where \<open>None\<close> is \<open>undefined\<close>.
\<close>

datatype json = JNull | JBool bool | JNum jsnum | JStr string | JArr "json list"
  | JObj "(string \<times> json) list"

type_synonym jsval = "json option"

text \<open>What the \<open>try\<close> block of lines 58 to 81 can throw, each with its message.\<close>

datatype thrown = SyntaxError string | TypeError string | FsError string

fun message :: "thrown \<Rightarrow> string" where
  "message (SyntaxError m) = m"
| "message (TypeError m) = m"
| "message (FsError m) = m"

definition bindE :: "thrown + 'a \<Rightarrow> ('a \<Rightarrow> thrown + 'b) \<Rightarrow> thrown + 'b" where
  "bindE r f = (case r of Inl e \<Rightarrow> Inl e | Inr v \<Rightarrow> f v)"

text \<open>
  The property read \<open>v.k\<close>, for the keys this code reads: a \<open>TypeError\<close> on \<open>null\<close> and
  \<open>undefined\<close>, the member of an object, and \<open>undefined\<close> on every other value. The
  message names the property between single quotes.
\<close>

definition quoted :: "string \<Rightarrow> string" where
  "quoted k = [CHR 0x27] @ k @ [CHR 0x27]"

definition getProp :: "jsval \<Rightarrow> string \<Rightarrow> thrown + jsval" where
  "getProp v k =
     (case v of
        None \<Rightarrow>
          Inl (TypeError (''Cannot read properties of undefined (reading '' @ quoted k @ '')''))
      | Some JNull \<Rightarrow>
          Inl (TypeError (''Cannot read properties of null (reading '' @ quoted k @ '')''))
      | Some (JObj members) \<Rightarrow> Inr (map_of members k)
      | Some _ \<Rightarrow> Inr None)"

text \<open>Truthiness of a value, and \<open>a || b\<close> on values.\<close>

fun truthyVal :: "jsval \<Rightarrow> bool" where
  "truthyVal None = False"
| "truthyVal (Some JNull) = False"
| "truthyVal (Some (JBool b)) = b"
| "truthyVal (Some (JNum n)) = truthy n"
| "truthyVal (Some (JStr t)) = (t \<noteq> [])"
| "truthyVal (Some (JArr xs)) = True"
| "truthyVal (Some (JObj members)) = True"

definition orVal :: "jsval \<Rightarrow> jsval \<Rightarrow> jsval" where
  "orVal a b = (if truthyVal a then a else b)"

text \<open>
  Line 60: \<open>streams.find((s) => s.codec_type === 'audio')\<close>. Only an array has the
  method; the callback throws on a \<open>null\<close> entry, and the search stops at the first hit.
\<close>

fun findLoop :: "json list \<Rightarrow> thrown + jsval" where
  "findLoop [] = Inr None"
| "findLoop (s # rest) =
     bindE (getProp (Some s) ''codec_type'')
       (\<lambda>codec_type. if codec_type = Some (JStr ''audio'') then Inr (Some s) else findLoop rest)"

definition findAudio :: "jsval \<Rightarrow> thrown + jsval" where
  "findAudio streams =
     (case streams of
        Some (JArr xs) \<Rightarrow> findLoop xs
      | None \<Rightarrow>
          Inl (TypeError (''Cannot read properties of undefined (reading '' @ quoted ''find'' @ '')''))
      | Some JNull \<Rightarrow>
          Inl (TypeError (''Cannot read properties of null (reading '' @ quoted ''find'' @ '')''))
      | Some _ \<Rightarrow> Inl (TypeError ''data.streams.find is not a function''))"

text \<open>
  The record of lines 69 to 77. \<open>durationText\<close> and \<open>sampleRateText\<close> are the values
  handed to \<open>parseFloat\<close> and to \<open>parseInt\<close>; the two conversions are not modelled.
\<close>

record audioMetadata =
  durationText :: jsval
  sampleRateText :: jsval
  meta_bitDepth :: jsval
  meta_channels :: jsval
  meta_format :: jsval
  meta_codec :: jsval
  meta_fileSize :: nat

text \<open>
  One run of the probe, as the \<open>close\<close> handler of line 51 sees it: the text gathered
  from stderr, the exit code, what \<open>JSON.parse\<close> does on the text gathered from stdout,
  and what \<open>statSync(filePath)\<close> does (the file size, or the error it throws).
\<close>

record probeRun =
  errorText :: string
  exitCode :: "int option"
  parsedOutput :: "thrown + json"
  statResult :: "thrown + nat"

text \<open>Lines 59 to 77: the body of the \<open>try\<close> block.\<close>

definition tryBlock :: "probeRun \<Rightarrow> thrown + audioMetadata promise" where
  "tryBlock run =
     bindE (parsedOutput run) (\<lambda>data.
     bindE (getProp (Some data) ''streams'') (\<lambda>streams.
     bindE (findAudio streams) (\<lambda>audioStream.
       if \<not> truthyVal audioStream
       then Inr (Rejected (Error ''No audio stream found in file''))
       else
         bindE (statResult run) (\<lambda>size.
         bindE (getProp (Some data) ''format'') (\<lambda>fmt.
         bindE (getProp fmt ''duration'') (\<lambda>duration.
         bindE (getProp audioStream ''sample_rate'') (\<lambda>sample_rate.
         bindE (getProp audioStream ''bits_per_sample'') (\<lambda>bits_per_sample.
         bindE (getProp audioStream ''channels'') (\<lambda>channels.
         bindE (getProp fmt ''format_name'') (\<lambda>format_name.
         bindE (getProp audioStream ''codec_name'') (\<lambda>codec_name.
           Inr (Resolved
             \<lparr>durationText = orVal duration (Some (JStr ''0'')),
              sampleRateText = orVal sample_rate (Some (JStr ''44100'')),
              meta_bitDepth = orVal bits_per_sample (Some (JNum (Fin 16))),
              meta_channels = orVal channels (Some (JNum (Fin 2))),
              meta_format = orVal format_name (Some (JStr ''unknown'')),
              meta_codec = codec_name,
              meta_fileSize = size\<rparr>))))))))))))"

text \<open>Lines 51 to 82: the \<open>close\<close> handler, giving the promise of line 30.\<close>

definition analyzeAudio :: "probeRun \<Rightarrow> audioMetadata promise" where
  "analyzeAudio run =
     (if exitCode run \<noteq> Some 0
      then Rejected (Error (''FFprobe failed: '' @ errorText run))
      else (case tryBlock run of
              Inl parseError \<Rightarrow>
                Rejected (Error (''Failed to parse audio metadata: '' @ message parseError))
            | Inr p \<Rightarrow> p))"

section \<open>The specification's readings\<close>




text \<open>
  The single-stem graph in the specification's words: the output label wired directly to
  the stem's processed stream, so the chain of the stem itself ends in the output label.
\<close>

definition spec_directGraph :: "numToString \<Rightarrow> stem \<Rightarrow> string" where
  "spec_directGraph ns s = stemChain ns 0 s @ ''[out]''"

text \<open>
  The argument list in the specification's words: the stem inputs first, then the graph,
  the mapping of the output label, the sample rate, the codec flags of the container
  format, and the overwrite flag next to the destination path.
\<close>

definition spec_args :: "numToString \<Rightarrow> renderOptions \<Rightarrow> string list" where
  "spec_args ns opts =
     concat (map (\<lambda>s. [''-i'', filePath s]) (stems opts))
     @ [''-filter_complex'', buildFilterComplex ns (stems opts)]
     @ [''-map'', ''[out]'']
     @ [''-ar'', ns (sampleRate (settings opts))]
     @ (if format (settings opts) = ''wav''
        then [''-acodec'', ''pcm_s'' @ ns (bitDepth (settings opts)) @ ''le'']
        else if format (settings opts) = ''mp3'' then [''-b:a'', ''320k'']
        else [])
     @ [''-y'', outputPath opts]"

text \<open>
  The code has no error types: it rejects with plain \<open>Error\<close> objects. The kinds of the
  specification are read off the messages of the rejecting lines: \<open>ProbeFailure\<close> is the
  rejection of line 54, \<open>MetadataParseFailure\<close> the rejections of lines 63 and 80.
\<close>

definition isProbeFailure :: "'a promise \<Rightarrow> bool" where
  "isProbeFailure p =
     (case p of Rejected (Error m) \<Rightarrow> prefix ''FFprobe failed: '' m | _ \<Rightarrow> False)"

definition isMetadataParseFailure :: "'a promise \<Rightarrow> bool" where
  "isMetadataParseFailure p =
     (case p of
        Rejected (Error m) \<Rightarrow>
          m = ''No audio stream found in file'' \<or> prefix ''Failed to parse audio metadata: '' m
      | _ \<Rightarrow> False)"

text \<open>
  The probe output is well-formed structured data when \<open>JSON.parse\<close> accepts it, and it
  has an audio stream when its \<open>streams\<close> array holds an object whose \<open>codec_type\<close> is
  \<open>audio\<close>.
\<close>

definition isAudioStream :: "json \<Rightarrow> bool" where
  "isAudioStream s =
     (case s of JObj members \<Rightarrow> map_of members ''codec_type'' = Some (JStr ''audio'')
      | _ \<Rightarrow> False)"

definition hasAudioStream :: "json \<Rightarrow> bool" where
  "hasAudioStream data =
     (case data of
        JObj members \<Rightarrow>
          (case map_of members ''streams'' of
             Some (JArr xs) \<Rightarrow> list_ex isAudioStream xs
           | _ \<Rightarrow> False)
      | _ \<Rightarrow> False)"

definition wellFormedWithAudio :: "thrown + json \<Rightarrow> bool" where
  "wellFormedWithAudio parsed =
     (case parsed of Inl e \<Rightarrow> False | Inr data \<Rightarrow> hasAudioStream data)"

text \<open>
  The shape the handler relies on beyond that: the output is an object whose \<open>streams\<close>
  array has no \<open>null\<close> entry and whose \<open>format\<close> member is there and not \<open>null\<close>.
\<close>

definition probeShape :: "json \<Rightarrow> bool" where
  "probeShape data =
     (case data of
        JObj members \<Rightarrow>
          (case map_of members ''streams'' of
             Some (JArr xs) \<Rightarrow>
               JNull \<notin> set xs
               \<and> (case map_of members ''format'' of
                     None \<Rightarrow> False | Some fmt \<Rightarrow> fmt \<noteq> JNull)
           | _ \<Rightarrow> False)
      | _ \<Rightarrow> False)"

section \<open>Example values\<close>

text \<open>
  A number formatting for the examples: plain decimal notation with at most seventeen
  fraction digits, which is what JavaScript prints for the integers and for the binary64
  fractions with a short decimal expansion used below (\<open>0.75\<close>, \<open>0.5\<close>).
\<close>

fun fracDigits :: "nat \<Rightarrow> rat \<Rightarrow> string" where
  "fracDigits 0 r = []"
| "fracDigits (Suc k) r =
     (if r = 0 then []
      else digitChar (nat \<lfloor>r * 10\<rfloor>) # fracDigits k (r * 10 - of_int \<lfloor>r * 10\<rfloor>))"

definition exNumText :: numToString where
  "exNumText v =
     (case v of
        NaN \<Rightarrow> ''NaN''
      | PosInf \<Rightarrow> ''Infinity''
      | NegInf \<Rightarrow> ''-Infinity''
      | Fin r \<Rightarrow>
          (if r < 0 then ''-'' else '''') @ showNat (nat \<lfloor>\<bar>r\<bar>\<rfloor>)
          @ (if \<bar>r\<bar> = of_int \<lfloor>\<bar>r\<bar>\<rfloor> then ''''
             else ''.'' @ fracDigits 17 (\<bar>r\<bar> - of_int \<lfloor>\<bar>r\<bar>\<rfloor>)))"

definition exRuntime :: runtime where
  "exRuntime = \<lparr>numText = exNumText, ffmpegPath = ''ffmpeg''\<rparr>"

definition exSettings :: settings where
  "exSettings = \<lparr>sampleRate = Fin 44100, bitDepth = Fin 16, format = ''wav''\<rparr>"

definition exDrums :: stem where
  "exDrums = \<lparr>filePath = ''drums.wav'', volume = Fin (3 / 4), pan = Fin 0, effects = None\<rparr>"

definition exBass :: stem where
  "exBass = \<lparr>filePath = ''bass.wav'', volume = Fin (1 / 2), pan = Fin 0, effects = None\<rparr>"

definition exJob :: "stem list \<Rightarrow> renderOptions" where
  "exJob ss = \<lparr>stems = ss, outputPath = ''out/mix.wav'', settings = exSettings\<rparr>"

text \<open>A run in which the directory exists and the engine exits with code 0 at once.\<close>

definition exWorld :: "bool \<Rightarrow> env" where
  "exWorld fileThere =
     \<lparr>mkdirError = None, procEvents = [Close (Some 0)], outputFileExists = fileThere\<rparr>"



text \<open>A probe that exits with code 1 and prints an empty object on stdout.\<close>

definition exProbeFailed :: probeRun where
  "exProbeFailed =
     \<lparr>errorText = ''notes.wav: Invalid data found when processing input'',
      exitCode = Some 1,
      parsedOutput = Inr (JObj []),
      statResult = Inr 42\<rparr>"

text \<open>
  A probe that exits with code 0 on an audio file and prints a complete description,
  while \<open>statSync\<close> throws because the file is gone.
\<close>

definition exProbeAudio :: json where
  "exProbeAudio =
     JObj [(''streams'', JArr [JObj [(''codec_type'', JStr ''audio''),
                                     (''sample_rate'', JStr ''48000'')]]),
           (''format'', JObj [(''format_name'', JStr ''wav''), (''duration'', JStr ''1.5'')])]"

definition exProbeNoStat :: probeRun where
  "exProbeNoStat =
     \<lparr>errorText = '''',
      exitCode = Some 0,
      parsedOutput = Inr exProbeAudio,
      statResult = Inl (FsError ''ENOENT: no such file or directory, stat take.wav'')\<rparr>"

text \<open>The same probe on a file that is still there.\<close>

definition exProbeGood :: probeRun where
  "exProbeGood =
     \<lparr>errorText = '''', exitCode = Some 0, parsedOutput = Inr exProbeAudio,
      statResult = Inr 288044\<rparr>"

text \<open>A probe that exits with code 0 on a container holding one video stream only.\<close>

definition exProbeVideoOnly :: probeRun where
  "exProbeVideoOnly =
     \<lparr>errorText = '''',
      exitCode = Some 0,
      parsedOutput = Inr (JObj [(''streams'', JArr [JObj [(''codec_type'', JStr ''video'')]]),
                                (''format'', JObj [(''format_name'', JStr ''mp4'')])]),
      statResult = Inr 42\<rparr>"

section \<open>Facts about the filter graph\<close>

text \<open>The loop of lines 43 to 58 in closed form.\<close>

lemma forEachStem_acc:
  "forEachStem ns i ss (fc, ls) =
     (fc @ concat (map (\<lambda>(k, s). stemFilter ns k s @ '';'') (enumerate i ss)),
      ls @ map (\<lambda>k. ''[a'' @ showNat k @ '']'') [i..<i + length ss])"
proof (induction ss arbitrary: i fc ls)
  case Nil
  then show ?case by simp
next
  case (Cons s ss)
  have "[i..<i + length (s # ss)] = i # [Suc i..<Suc i + length ss]"
    using upt_conv_Cons [of i "i + length (s # ss)"] by simp
  then show ?case using Cons.IH by (simp del: upt_Suc)
qed

lemma buildFilterComplex_closed:
  "buildFilterComplex ns ss =
     concat (map (\<lambda>(k, s). stemFilter ns k s @ '';'') (enumerate 0 ss))
     @ (if length ss > 1
        then concat (map (\<lambda>k. ''[a'' @ showNat k @ '']'') [0..<length ss])
               @ ''amix=inputs='' @ showNat (length ss) @ '':duration=longest[out]''
        else ''[a0]acopy[out]'')"
  by (simp add: buildFilterComplex_def forEachStem_acc)

lemma enumerate_map_cong:
  "list_all2 (\<lambda>a b. \<forall>k. f k a = f k b) xs ys \<Longrightarrow>
     map (\<lambda>(k, s). f k s) (enumerate i xs) = map (\<lambda>(k, s). f k s) (enumerate i ys)"
  by (induction xs ys arbitrary: i rule: list_all2_induct) simp_all

lemma buildFilterComplex_cong:
  assumes "list_all2 (\<lambda>a b. \<forall>k. stemFilter ns k a = stemFilter ns k b) xs ys"
  shows "buildFilterComplex ns xs = buildFilterComplex ns ys"
proof -
  have len: "length xs = length ys"
    using assms by (rule list_all2_lengthD)
  have "list_all2 (\<lambda>a b. \<forall>k. stemFilter ns k a @ '';'' = stemFilter ns k b @ '';'') xs ys"
    using assms by (rule list_all2_mono) simp
  then have "map (\<lambda>(k, s). stemFilter ns k s @ '';'') (enumerate 0 xs)
      = map (\<lambda>(k, s). stemFilter ns k s @ '';'') (enumerate 0 ys)"
    by (rule enumerate_map_cong)
  then show ?thesis
    by (simp add: buildFilterComplex_closed len)
qed

lemma pushInputs_closed:
  "pushInputs args ss = args @ concat (map (\<lambda>s. [''-i'', filePath s]) ss)"
  by (induction ss arbitrary: args) simp_all

lemma stemFilter_fields:
  "volume a = volume b \<Longrightarrow> pan a = pan b \<Longrightarrow> stemFilter ns k a = stemFilter ns k b"
  by (simp add: stemFilter_def stemChain_def)

section \<open>Evaluating the examples\<close>

lemma floor_rat_numeral:
  "\<lfloor>(numeral a / numeral b :: rat)\<rfloor> = numeral a div numeral b"
proof -
  have "\<lfloor>(of_int (numeral a) / of_int (numeral b) :: rat)\<rfloor> = numeral a div numeral b"
    by (rule floor_divide_of_int_eq)
  then show ?thesis by (simp only: of_int_numeral)
qed

lemma floor_rat_one_numeral:
  "\<lfloor>(1 / numeral b :: rat)\<rfloor> = 1 div numeral b"
proof -
  have "\<lfloor>(of_int 1 / of_int (numeral b) :: rat)\<rfloor> = 1 div numeral b"
    by (rule floor_divide_of_int_eq)
  then show ?thesis by (simp only: of_int_numeral of_int_1)
qed

lemma fracDigits_numeral:
  "fracDigits (numeral k) r =
     (if r = 0 then []
      else digitChar (nat \<lfloor>r * 10\<rfloor>)
             # fracDigits (pred_numeral k) (r * 10 - of_int \<lfloor>r * 10\<rfloor>))"
  by (simp add: numeral_eq_Suc)

lemma showNat_0: "showNat 0 = ''0''"
  by (simp add: showNat.simps digitChar_def)

lemma showNat_1: "showNat 1 = ''1''" "showNat (Suc 0) = ''1''"
  by (simp_all add: showNat.simps digitChar_def)

lemma showNat_numeral:
  "showNat (numeral k) =
     (if numeral k < (10::nat) then [digitChar (numeral k)]
      else showNat (numeral k div 10) @ [digitChar (numeral k mod 10)])"
  by (rule showNat.simps)

lemmas showNat_eval = showNat_0 showNat_1 showNat_numeral digitChar_def

lemmas exNumText_eval = exNumText_def showNat_eval floor_rat_numeral floor_rat_one_numeral
  fracDigits_numeral

lemma showNat_2: "showNat (Suc (Suc 0)) = ''2''"
  using showNat.simps [of 2] by (simp add: digitChar_def numeral_2_eq_2)

lemmas graph_eval = showNat_2 buildFilterComplex_def stemFilter_def stemChain_def orElse_def
  exDrums_def exBass_def exNumText_eval

lemmas render_eval = renderMix_def buildArgs_def exJob_def exSettings_def exWorld_def
  exRuntime_def settle_def graph_eval

section \<open>Facts about the render subprocess\<close>

lemma foldl_stderr_data:
  "foldl (onEvent out) st (map StderrData chunks)
     = st\<lparr>stderrText := stderrText st @ concat (map (bufferToString) chunks)\<rparr>"
  by (induction chunks arbitrary: st) simp_all

lemma onEvent_settled_stays:
  "settled st \<noteq> Pending \<Longrightarrow> settled (onEvent out st ev) = settled st"
  by (cases ev) (simp_all add: settle_def)

lemma foldl_settled_stays:
  "settled st \<noteq> Pending \<Longrightarrow> settled (foldl (onEvent out) st evs) = settled st"
  by (induction evs arbitrary: st) (simp_all add: onEvent_settled_stays)

lemma run_until_close:
  "settled (foldl (onEvent out) \<lparr>stderrText = '''', settled = Pending\<rparr>
       (map StderrData chunks @ Close code # rest))
     = (if code = Some 0 then Resolved out
        else Rejected (Error (''FFmpeg failed with code '' @ showCode code @ '': ''
               @ concat (map (bufferToString) chunks))))"
  by (simp add: foldl_stderr_data foldl_settled_stays settle_def)

lemma renderMix_outcome:
  "mkdirError world = None \<Longrightarrow>
     outcome (renderMix rt world opts)
       = settled (foldl (onEvent (outputPath opts)) \<lparr>stderrText = '''', settled = Pending\<rparr>
           (procEvents world))"
  by (simp add: renderMix_def)

lemma renderMix_spawned:
  "mkdirError world = None \<Longrightarrow>
     spawned (renderMix rt world opts) = [(ffmpegPath rt, buildArgs (numText rt) opts)]"
  by (simp add: renderMix_def)

lemma renderMix_close:
  assumes "mkdirError world = None"
    and "procEvents world = map StderrData chunks @ Close code # rest"
  shows "outcome (renderMix rt world opts)
     = (if code = Some 0 then Resolved (outputPath opts)
        else Rejected (Error (''FFmpeg failed with code '' @ showCode code @ '': ''
               @ concat (map (bufferToString) chunks))))"
  using assms by (simp only: renderMix_outcome run_until_close)

lemma renderMix_close_first:
  assumes "mkdirError world = None" and "procEvents world = Close code # rest"
  shows "outcome (renderMix rt world opts)
     = (if code = Some 0 then Resolved (outputPath opts)
        else Rejected (Error (''FFmpeg failed with code '' @ showCode code @ '': '')))"
  using renderMix_close [of world "[]" code rest rt opts] assms by simp

lemma buildArgs_closed:
  "buildArgs ns opts =
     [''-y''] @ concat (map (\<lambda>s. [''-i'', filePath s]) (stems opts))
     @ [''-filter_complex'', buildFilterComplex ns (stems opts), ''-map'', ''[out]'',
        ''-ar'', ns (sampleRate (settings opts))]
     @ (if format (settings opts) = ''wav''
        then [''-f'', ''wav'', ''-acodec'', ''pcm_s'' @ ns (bitDepth (settings opts)) @ ''le'']
        else if format (settings opts) = ''mp3'' then [''-f'', ''mp3'', ''-b:a'', ''320k'']
        else [])
     @ [outputPath opts]"
  by (simp add: buildArgs_def pushInputs_closed)

lemma stemFilter_effects: "stemFilter ns k (s\<lparr>effects := e\<rparr>) = stemFilter ns k s"
  by (simp add: stemFilter_def stemChain_def)

lemma buildFilterComplex_effects:
  "buildFilterComplex ns (map (\<lambda>s. s\<lparr>effects := f s\<rparr>) ss) = buildFilterComplex ns ss"
  by (rule buildFilterComplex_cong) (simp add: list_all2_map1 list.rel_refl stemFilter_effects)

lemma buildArgs_effects:
  "buildArgs ns (opts\<lparr>stems := map (\<lambda>s. s\<lparr>effects := f s\<rparr>) (stems opts)\<rparr>) = buildArgs ns opts"
  by (simp add: buildArgs_closed buildFilterComplex_effects comp_def)

section \<open>Facts about the metadata probe\<close>

lemma findLoop_Some: "findLoop xs = Inr (Some s) \<Longrightarrow> list_ex isAudioStream xs"
proof (induction xs)
  case Nil
  then show ?case by simp
next
  case (Cons x xs)
  then show ?case
    by (cases x) (auto simp add: bindE_def getProp_def isAudioStream_def split: if_splits)
qed

lemma findLoop_None:
  "JNull \<notin> set xs \<Longrightarrow> \<not> list_ex isAudioStream xs \<Longrightarrow> findLoop xs = Inr None"
proof (induction xs)
  case Nil
  then show ?case by simp
next
  case (Cons x xs)
  then show ?case
    by (cases x) (auto simp add: bindE_def getProp_def isAudioStream_def)
qed

lemma findAudio_Some:
  "findAudio streams = Inr (Some s) \<Longrightarrow> \<exists>xs. streams = Some (JArr xs) \<and> list_ex isAudioStream xs"
  by (auto simp add: findAudio_def split: option.splits json.splits dest: findLoop_Some)

lemma tryBlock_no_audio:
  assumes "parsedOutput run = Inr data" and "\<not> hasAudioStream data"
  shows "(\<exists>e. tryBlock run = Inl e)
     \<or> tryBlock run = Inr (Rejected (Error ''No audio stream found in file''))"
proof (cases "getProp (Some data) ''streams''")
  case (Inl e)
  then show ?thesis using assms(1) by (simp add: tryBlock_def bindE_def)
next
  case (Inr streams)
  show ?thesis
  proof (cases "findAudio streams")
    case (Inl e)
    then show ?thesis using assms(1) Inr by (simp add: tryBlock_def bindE_def)
  next
    case found: (Inr audioStream)
    show ?thesis
    proof (cases audioStream)
      case None
      then show ?thesis using assms(1) Inr found by (simp add: tryBlock_def bindE_def)
    next
      case (Some a)
      then obtain xs where xs: "streams = Some (JArr xs)" "list_ex isAudioStream xs"
        using found findAudio_Some by blast
      then have "hasAudioStream data"
        using Inr by (cases data) (simp_all add: getProp_def hasAudioStream_def)
      then show ?thesis using assms(2) by simp
    qed
  qed
qed

lemma analyzeAudio_thrown:
  "exitCode run = Some 0 \<Longrightarrow> tryBlock run = Inl e \<Longrightarrow> isMetadataParseFailure (analyzeAudio run)"
  by (simp add: analyzeAudio_def isMetadataParseFailure_def)

section \<open>Facts about rounding to binary64\<close>














section \<open>Facts about decoding\<close>





section \<open>The filter of one stem inside the graph\<close>




section \<open>Facts about a probe that succeeds\<close>

lemma findLoop_finds:
  "JNull \<notin> set xs \<Longrightarrow> list_ex isAudioStream xs \<Longrightarrow>
     \<exists>members. findLoop xs = Inr (Some (JObj members))"
proof (induction xs)
  case Nil
  then show ?case by simp
next
  case (Cons x xs)
  then show ?case
    by (cases x) (auto simp add: bindE_def getProp_def isAudioStream_def)
qed

lemma getProp_object: "getProp (Some (JObj members)) k = Inr (map_of members k)"
  by (simp add: getProp_def)

lemma getProp_not_null: "v \<noteq> JNull \<Longrightarrow> \<exists>r. getProp (Some v) k = Inr r"
  by (cases v) (simp_all add: getProp_def)

lemma tryBlock_resolves:
  assumes "parsedOutput run = Inr data" and "hasAudioStream data" and "probeShape data"
    and "statResult run = Inr n"
  shows "\<exists>md. tryBlock run = Inr (Resolved md) \<and> meta_fileSize md = n"
proof -
  obtain members where data: "data = JObj members"
    using assms(3) by (cases data) (simp_all add: probeShape_def)
  obtain sv where sv: "map_of members ''streams'' = Some sv"
    using assms(3) data by (cases "map_of members ''streams''") (simp_all add: probeShape_def)
  obtain xs where streams: "map_of members ''streams'' = Some (JArr xs)"
    using assms(3) data sv by (cases sv) (simp_all add: probeShape_def)
  have nonull: "JNull \<notin> set xs"
    using assms(3) data streams by (simp add: probeShape_def)
  obtain fmt where fmt: "map_of members ''format'' = Some fmt" "fmt \<noteq> JNull"
    using assms(3) data streams
    by (cases "map_of members ''format''") (simp_all add: probeShape_def)
  have "list_ex isAudioStream xs"
    using assms(2) data streams by (simp add: hasAudioStream_def)
  then obtain am where found: "findLoop xs = Inr (Some (JObj am))"
    using nonull findLoop_finds by blast
  obtain duration where duration: "getProp (Some fmt) ''duration'' = Inr duration"
    using fmt(2) getProp_not_null by blast
  obtain format_name where format_name: "getProp (Some fmt) ''format_name'' = Inr format_name"
    using fmt(2) getProp_not_null by blast
  show ?thesis
    using assms(1,4) data streams fmt(1) found duration format_name
    by (simp add: tryBlock_def bindE_def getProp_object findAudio_def)
qed

lemmas probe_eval = exProbeVideoOnly_def exProbeFailed_def exProbeGood_def exProbeNoStat_def
  exProbeAudio_def wellFormedWithAudio_def hasAudioStream_def isAudioStream_def probeShape_def
  isMetadataParseFailure_def isProbeFailure_def

section \<open>The pan law\<close>




section \<open>The empty stem list\<close>

text \<open>
  C2 as stated fails: for the empty stem list \<open>renderMix\<close> raises no error. It
  builds the graph text \<open>[a0]acopy[out]\<close>, spawns the engine, and resolves when the
  engine exits with code 0.
\<close>

theorem empty_stems_counterexample:
  "buildFilterComplex exNumText [] = ''[a0]acopy[out]''
   \<and> spawned (renderMix exRuntime (exWorld True) (exJob [])) \<noteq> []
   \<and> outcome (renderMix exRuntime (exWorld True) (exJob [])) = Resolved ''out/mix.wav''"
  by (simp add: render_eval)

text \<open>
  C2, amended. For the empty stem list \<open>renderMix\<close> performs no validation: the graph
  is the text \<open>[a0]acopy[out]\<close>, and once the output directory exists exactly one
  subprocess is spawned, with the overwrite flag, that graph, the output mapping, the
  sample rate, the format flags and the output path; the outcome is then the engine's,
  a success if it closes with code 0.
\<close>

theorem empty_stems_spawn:
  assumes "stems opts = []" and "mkdirError world = None"
  shows "buildFilterComplex (numText rt) (stems opts) = ''[a0]acopy[out]''
     \<and> spawned (renderMix rt world opts)
         = [(ffmpegPath rt,
             [''-y'', ''-filter_complex'', ''[a0]acopy[out]'', ''-map'', ''[out]'',
              ''-ar'', numText rt (sampleRate (settings opts))]
             @ (if format (settings opts) = ''wav''
                then [''-f'', ''wav'', ''-acodec'',
                      ''pcm_s'' @ numText rt (bitDepth (settings opts)) @ ''le'']
                else if format (settings opts) = ''mp3'' then [''-f'', ''mp3'', ''-b:a'', ''320k'']
                else [])
             @ [outputPath opts])]
     \<and> (\<forall>rest. procEvents world = Close (Some 0) # rest \<longrightarrow>
          outcome (renderMix rt world opts) = Resolved (outputPath opts))"
proof (intro conjI allI impI)
  show "buildFilterComplex (numText rt) (stems opts) = ''[a0]acopy[out]''"
    using assms(1) by (simp add: buildFilterComplex_def)
  show "spawned (renderMix rt world opts)
         = [(ffmpegPath rt,
             [''-y'', ''-filter_complex'', ''[a0]acopy[out]'', ''-map'', ''[out]'',
              ''-ar'', numText rt (sampleRate (settings opts))]
             @ (if format (settings opts) = ''wav''
                then [''-f'', ''wav'', ''-acodec'',
                      ''pcm_s'' @ numText rt (bitDepth (settings opts)) @ ''le'']
                else if format (settings opts) = ''mp3'' then [''-f'', ''mp3'', ''-b:a'', ''320k'']
                else [])
             @ [outputPath opts])]"
    using assms by (simp add: renderMix_spawned buildArgs_closed buildFilterComplex_def)
next
  fix rest
  assume "procEvents world = Close (Some 0) # rest"
  then show "outcome (renderMix rt world opts) = Resolved (outputPath opts)"
    using renderMix_close_first [of world "Some 0" rest rt opts] assms(2) by simp
qed

text \<open>
  The empty job on a run whose engine exits with code 0.
\<close>

theorem empty_stems_witness:
  "spawned (renderMix exRuntime (exWorld True) (exJob []))
     = [(''ffmpeg'',
         [''-y'', ''-filter_complex'', ''[a0]acopy[out]'', ''-map'', ''[out]'', ''-ar'', ''44100'',
          ''-f'', ''wav'', ''-acodec'', ''pcm_s16le'', ''out/mix.wav''])]
   \<and> outcome (renderMix exRuntime (exWorld True) (exJob [])) = Resolved ''out/mix.wav''"
  using empty_stems_spawn [of "exJob []" "exWorld True" exRuntime]
  by (simp add: exWorld_def exJob_def exSettings_def exRuntime_def exNumText_eval)

section \<open>Effect lists\<close>

text \<open>
  C3 as stated fails: a stem whose effect list names \<open>sidechain\<close> is rendered like
  any other; the engine is spawned and the call resolves.
\<close>

theorem unsupported_effect_counterexample:
  "spawned (renderMix exRuntime (exWorld True) (exJob [exDrums\<lparr>effects := Some [''sidechain'']\<rparr>]))
     = [(''ffmpeg'',
         [''-y'', ''-i'', ''drums.wav'', ''-filter_complex'', ''[0:a]volume=0.75[a0];[a0]acopy[out]'',
          ''-map'', ''[out]'', ''-ar'', ''44100'', ''-f'', ''wav'', ''-acodec'', ''pcm_s16le'',
          ''out/mix.wav''])]
   \<and> outcome (renderMix exRuntime (exWorld True) (exJob [exDrums\<lparr>effects := Some [''sidechain'']\<rparr>]))
     = Resolved ''out/mix.wav''"
  by (simp add: render_eval)

text \<open>
  C3, amended. \<open>renderMix\<close> never reads the effect lists: replacing the effects of
  every stem by anything else changes neither the spawned command nor the outcome, so no
  effect kind is rejected.
\<close>

theorem effects_ignored:
  "renderMix rt world (opts\<lparr>stems := map (\<lambda>s. s\<lparr>effects := f s\<rparr>) (stems opts)\<rparr>)
     = renderMix rt world opts"
  by (simp add: renderMix_def buildArgs_effects Let_def split: option.splits)

text \<open>
  The same job with and without a \<open>sidechain\<close> effect.
\<close>

theorem effects_ignored_witness:
  "renderMix exRuntime (exWorld True) (exJob [exDrums\<lparr>effects := Some [''sidechain'']\<rparr>])
     = renderMix exRuntime (exWorld True) (exJob [exDrums])"
  using effects_ignored [of exRuntime "exWorld True" "\<lambda>s. Some [''sidechain'']" "exJob [exDrums]"]
  by (simp add: exJob_def exDrums_def)

section \<open>Exit code 0\<close>

text \<open>
  C4 as stated fails: the engine exits with code 0, no file exists at the output path,
  and the call still resolves with the output path.
\<close>

theorem missing_output_counterexample:
  "outcome (renderMix exRuntime (exWorld False) (exJob [exDrums])) = Resolved ''out/mix.wav''
   \<and> \<not> outputFileExists (exWorld False)"
  by (simp add: render_eval)

text \<open>
  C4, amended. When the engine closes with exit code 0 (after any stderr output) the call
  resolves with the output path, whether or not a file exists there: the existence of
  the output file is not checked.
\<close>

theorem exit_zero_resolves:
  assumes "mkdirError world = None"
    and "procEvents world = map StderrData chunks @ Close (Some 0) # rest"
  shows "outcome (renderMix rt (world\<lparr>outputFileExists := b\<rparr>) opts) = Resolved (outputPath opts)"
  using renderMix_close [of "world\<lparr>outputFileExists := b\<rparr>" chunks "Some 0" rest rt opts] assms
  by simp

text \<open>
  The run with and without the output file.
\<close>

theorem exit_zero_witness:
  "outcome (renderMix exRuntime (exWorld False) (exJob [exDrums])) = Resolved ''out/mix.wav''
   \<and> outcome (renderMix exRuntime (exWorld True) (exJob [exDrums])) = Resolved ''out/mix.wav''"
  using exit_zero_resolves [of "exWorld True" "[]" "[]" exRuntime False "exJob [exDrums]"]
    exit_zero_resolves [of "exWorld True" "[]" "[]" exRuntime True "exJob [exDrums]"]
  by (simp add: exWorld_def exJob_def)

section \<open>Non-zero exit codes\<close>




section \<open>The mixing node\<close>

text \<open>
  C6 as stated fails for a single stem: the stem's processed stream is labelled
  \<open>[a0]\<close>, not with the output label, and a second node \<open>acopy\<close> carries it to
  \<open>[out]\<close>.
\<close>

theorem direct_wiring_counterexample:
  "buildFilterComplex exNumText [exDrums] = ''[0:a]volume=0.75[a0];[a0]acopy[out]''
   \<and> spec_directGraph exNumText exDrums = ''[0:a]volume=0.75[out]''
   \<and> buildFilterComplex exNumText [exDrums] \<noteq> spec_directGraph exNumText exDrums"
  by (simp add: spec_directGraph_def graph_eval)

text \<open>
  C6, amended. For a single stem the graph is the stem's chain labelled \<open>[a0]\<close>
  followed by one pass-through node \<open>[a0]acopy[out]\<close>, and no summing node. For two or
  more stems the graph is the chains in stem order, each ending in its own label
  \<open>[ak]\<close>, followed by exactly one node that takes all these labels in order:
  \<open>amix\<close> with the number of stems as \<open>inputs\<close> and \<open>duration=longest\<close>, routed to
  \<open>[out]\<close>.
\<close>

theorem mix_node:
  "buildFilterComplex ns [s] = stemFilter ns 0 s @ '';[a0]acopy[out]''
   \<and> stemFilter ns 0 s = stemChain ns 0 s @ ''[a0]''
   \<and> (2 \<le> length ss \<longrightarrow>
        buildFilterComplex ns ss =
          concat (map (\<lambda>(k, x). stemFilter ns k x @ '';'') (enumerate 0 ss))
          @ concat (map (\<lambda>k. ''[a'' @ showNat k @ '']'') [0..<length ss])
          @ ''amix=inputs='' @ showNat (length ss) @ '':duration=longest[out]'')
   \<and> (\<forall>k. suffix (''[a'' @ showNat k @ '']'') (stemFilter ns k s))"
  by (simp add: buildFilterComplex_closed stemFilter_def showNat_0 suffix_def)

text \<open>
  The graphs of a one-stem and of a two-stem job.
\<close>

theorem mix_node_witness:
  "buildFilterComplex exNumText [exDrums] = ''[0:a]volume=0.75[a0];[a0]acopy[out]''
   \<and> buildFilterComplex exNumText [exDrums, exBass]
     = ''[0:a]volume=0.75[a0];[1:a]volume=0.5[a1];[a0][a1]amix=inputs=2:duration=longest[out]''"
  using mix_node [of exNumText exDrums "[exDrums, exBass]"]
  by (simp add: enumerate_eq_zip stemFilter_def stemChain_def orElse_def exDrums_def exBass_def
      exNumText_eval upt_rec showNat_2)

section \<open>Determinism\<close>

text \<open>
  C7. Two stem lists with the same file paths, gains, pans and effect lists in the same
  order give the same graph text.
\<close>

theorem build_deterministic:
  assumes "list_all2 (\<lambda>a b. filePath a = filePath b \<and> volume a = volume b \<and> pan a = pan b
                          \<and> effects a = effects b) xs ys"
  shows "buildFilterComplex ns xs = buildFilterComplex ns ys"
proof (rule buildFilterComplex_cong)
  show "list_all2 (\<lambda>a b. \<forall>k. stemFilter ns k a = stemFilter ns k b) xs ys"
    using assms by (rule list_all2_mono) (blast intro: stemFilter_fields)
qed

text \<open>
  Two descriptions of the same two stems.
\<close>

theorem build_deterministic_witness:
  "buildFilterComplex exNumText [exDrums, exBass]
     = buildFilterComplex exNumText [exDrums\<lparr>effects := None\<rparr>, exBass\<lparr>pan := Fin 0\<rparr>]
   \<and> buildFilterComplex exNumText [exDrums, exBass]
     = ''[0:a]volume=0.75[a0];[1:a]volume=0.5[a1];[a0][a1]amix=inputs=2:duration=longest[out]''"
  using build_deterministic [of "[exDrums, exBass]"
      "[exDrums\<lparr>effects := None\<rparr>, exBass\<lparr>pan := Fin 0\<rparr>]" exNumText]
  by (simp add: graph_eval)

section \<open>The argument list\<close>

text \<open>
  C8 as stated fails: the list starts with the overwrite flag, not with the stem inputs,
  and a \<open>wav\<close> job carries the container flag \<open>-f wav\<close> before its codec flag.
\<close>

theorem args_order_counterexample:
  "buildArgs exNumText (exJob [exDrums])
     = [''-y'', ''-i'', ''drums.wav'', ''-filter_complex'', ''[0:a]volume=0.75[a0];[a0]acopy[out]'',
        ''-map'', ''[out]'', ''-ar'', ''44100'', ''-f'', ''wav'', ''-acodec'', ''pcm_s16le'',
        ''out/mix.wav'']
   \<and> spec_args exNumText (exJob [exDrums])
     = [''-i'', ''drums.wav'', ''-filter_complex'', ''[0:a]volume=0.75[a0];[a0]acopy[out]'',
        ''-map'', ''[out]'', ''-ar'', ''44100'', ''-acodec'', ''pcm_s16le'', ''-y'',
        ''out/mix.wav'']
   \<and> buildArgs exNumText (exJob [exDrums]) \<noteq> spec_args exNumText (exJob [exDrums])"
  by (simp add: spec_args_def render_eval)

text \<open>
  C8, amended. The argument list has the fixed order: the overwrite flag \<open>-y\<close> first,
  then \<open>-i\<close> and the file of every stem in stem order, then the graph, the mapping of
  \<open>[out]\<close>, the sample rate, then for \<open>wav\<close> the flags \<open>-f wav -acodec pcm_s<bitDepth>le\<close>,
  for \<open>mp3\<close> the flags \<open>-f mp3 -b:a 320k\<close> and nothing for any other format, and the
  output path last. Once the output directory exists, this list is what the one spawned
  subprocess receives.
\<close>

theorem render_args_order:
  "buildArgs ns opts =
     [''-y''] @ concat (map (\<lambda>s. [''-i'', filePath s]) (stems opts))
     @ [''-filter_complex'', buildFilterComplex ns (stems opts), ''-map'', ''[out]'',
        ''-ar'', ns (sampleRate (settings opts))]
     @ (if format (settings opts) = ''wav''
        then [''-f'', ''wav'', ''-acodec'', ''pcm_s'' @ ns (bitDepth (settings opts)) @ ''le'']
        else if format (settings opts) = ''mp3'' then [''-f'', ''mp3'', ''-b:a'', ''320k'']
        else [])
     @ [outputPath opts]
   \<and> (mkdirError world = None \<longrightarrow>
        spawned (renderMix rt world opts) = [(ffmpegPath rt, buildArgs (numText rt) opts)])"
  by (simp add: buildArgs_def pushInputs_closed renderMix_def)

text \<open>
  The command of a two-stem \<open>wav\<close> job.
\<close>

theorem render_args_order_witness:
  "spawned (renderMix exRuntime (exWorld True) (exJob [exDrums, exBass]))
     = [(''ffmpeg'',
         [''-y'', ''-i'', ''drums.wav'', ''-i'', ''bass.wav'', ''-filter_complex'',
          ''[0:a]volume=0.75[a0];[1:a]volume=0.5[a1];[a0][a1]amix=inputs=2:duration=longest[out]'',
          ''-map'', ''[out]'', ''-ar'', ''44100'', ''-f'', ''wav'', ''-acodec'', ''pcm_s16le'',
          ''out/mix.wav''])]"
  using render_args_order [of exNumText "exJob [exDrums, exBass]" "exWorld True" exRuntime]
  by (simp add: render_eval)

section \<open>Failures of the metadata probe\<close>

text \<open>
  C9 as stated fails in both directions. A probe that exits with code 1 and prints an
  empty object has no audio stream in its output, and the rejection is the one of the
  exit-code check, not a metadata parse failure. A probe that exits with code 0 and
  prints a complete description with an audio stream is rejected with a metadata parse
  failure when \<open>statSync\<close> throws.
\<close>

theorem probe_exact_counterexample:
  "\<not> wellFormedWithAudio (parsedOutput exProbeFailed)
   \<and> \<not> isMetadataParseFailure (analyzeAudio exProbeFailed)
   \<and> isProbeFailure (analyzeAudio exProbeFailed)
   \<and> wellFormedWithAudio (parsedOutput exProbeNoStat)
   \<and> analyzeAudio exProbeNoStat
       = Rejected (Error (''Failed to parse audio metadata: ''
                          @ ''ENOENT: no such file or directory, stat take.wav''))
   \<and> isMetadataParseFailure (analyzeAudio exProbeNoStat)"
  by (simp add: probe_eval analyzeAudio_def tryBlock_def bindE_def getProp_def findAudio_def)

text \<open>
  C9, amended. When the probe exits with a code other than 0, the call is rejected with
  the probe failure carrying the stderr text, whatever the output. When it exits with
  code 0: if the output is not well-formed JSON or lacks an audio stream, the call is
  rejected with a metadata parse failure and no exception escapes (with the message
  \<open>No audio stream found in file\<close> when the streams array has no \<open>null\<close> entry and no
  audio stream); if the file can be stat'ed and the output is an object with an audio
  stream, a streams array free of \<open>null\<close> and a \<open>format\<close> member, the call resolves
  with the file size; so, when the file can be stat'ed, a metadata parse failure occurs
  only if the output is not well-formed JSON, lacks an audio stream, or lacks that
  shape.
\<close>

theorem probe_failure_kinds:
  "(exitCode run \<noteq> Some 0
      \<longrightarrow> analyzeAudio run = Rejected (Error (''FFprobe failed: '' @ errorText run))
          \<and> isProbeFailure (analyzeAudio run)
          \<and> \<not> isMetadataParseFailure (analyzeAudio run))
   \<and> (exitCode run = Some 0 \<and> \<not> wellFormedWithAudio (parsedOutput run)
      \<longrightarrow> isMetadataParseFailure (analyzeAudio run))
   \<and> (exitCode run = Some 0 \<and> parsedOutput run = Inr (JObj members)
        \<and> map_of members ''streams'' = Some (JArr xs) \<and> JNull \<notin> set xs
        \<and> \<not> list_ex isAudioStream xs
      \<longrightarrow> analyzeAudio run = Rejected (Error ''No audio stream found in file''))
   \<and> (exitCode run = Some 0 \<and> statResult run = Inr n \<and> parsedOutput run = Inr data
        \<and> hasAudioStream data \<and> probeShape data
      \<longrightarrow> (\<exists>md. analyzeAudio run = Resolved md \<and> meta_fileSize md = n))
   \<and> (exitCode run = Some 0 \<and> statResult run = Inr n
        \<and> isMetadataParseFailure (analyzeAudio run)
      \<longrightarrow> \<not> wellFormedWithAudio (parsedOutput run)
          \<or> (\<exists>data. parsedOutput run = Inr data \<and> \<not> probeShape data))"
proof (intro conjI impI)
  assume a: "exitCode run \<noteq> Some 0"
  then show "analyzeAudio run = Rejected (Error (''FFprobe failed: '' @ errorText run))"
    by (simp add: analyzeAudio_def)
  from a show "isProbeFailure (analyzeAudio run)"
    by (simp add: analyzeAudio_def isProbeFailure_def)
  from a show "\<not> isMetadataParseFailure (analyzeAudio run)"
    by (simp add: analyzeAudio_def isMetadataParseFailure_def)
next
  assume a: "exitCode run = Some 0 \<and> \<not> wellFormedWithAudio (parsedOutput run)"
  show "isMetadataParseFailure (analyzeAudio run)"
  proof (cases "parsedOutput run")
    case (Inl e)
    then have "tryBlock run = Inl e" by (simp add: tryBlock_def bindE_def)
    then show ?thesis using a by (simp add: analyzeAudio_thrown)
  next
    case (Inr data)
    then have "\<not> hasAudioStream data" using a by (simp add: wellFormedWithAudio_def)
    then consider e where "tryBlock run = Inl e"
      | "tryBlock run = Inr (Rejected (Error ''No audio stream found in file''))"
      using tryBlock_no_audio [OF Inr] by blast
    then show ?thesis
    proof cases
      case 1
      then show ?thesis using a by (simp add: analyzeAudio_thrown)
    next
      case 2
      then show ?thesis using a by (simp add: analyzeAudio_def isMetadataParseFailure_def)
    qed
  qed
next
  assume a: "exitCode run = Some 0 \<and> parsedOutput run = Inr (JObj members)
        \<and> map_of members ''streams'' = Some (JArr xs) \<and> JNull \<notin> set xs
        \<and> \<not> list_ex isAudioStream xs"
  then have "findLoop xs = Inr None" by (simp add: findLoop_None)
  then have "tryBlock run = Inr (Rejected (Error ''No audio stream found in file''))"
    using a by (simp add: tryBlock_def bindE_def getProp_def findAudio_def)
  then show "analyzeAudio run = Rejected (Error ''No audio stream found in file'')"
    using a by (simp add: analyzeAudio_def)
next
  assume a: "exitCode run = Some 0 \<and> statResult run = Inr n \<and> parsedOutput run = Inr data
        \<and> hasAudioStream data \<and> probeShape data"
  then obtain md where "tryBlock run = Inr (Resolved md)" "meta_fileSize md = n"
    using tryBlock_resolves [of run data n] by blast
  then show "\<exists>md. analyzeAudio run = Resolved md \<and> meta_fileSize md = n"
    using a by (simp add: analyzeAudio_def)
next
  assume a: "exitCode run = Some 0 \<and> statResult run = Inr n
        \<and> isMetadataParseFailure (analyzeAudio run)"
  show "\<not> wellFormedWithAudio (parsedOutput run)
          \<or> (\<exists>data. parsedOutput run = Inr data \<and> \<not> probeShape data)"
  proof (rule ccontr)
    assume "\<not> (\<not> wellFormedWithAudio (parsedOutput run)
          \<or> (\<exists>data. parsedOutput run = Inr data \<and> \<not> probeShape data))"
    then obtain data where data: "parsedOutput run = Inr data" "hasAudioStream data"
        "probeShape data"
      by (cases "parsedOutput run") (auto simp add: wellFormedWithAudio_def)
    then obtain md where "tryBlock run = Inr (Resolved md)"
      using a tryBlock_resolves [of run data n] by blast
    then have "analyzeAudio run = Resolved md"
      using a by (simp add: analyzeAudio_def)
    then show False using a by (simp add: isMetadataParseFailure_def)
  qed
qed

text \<open>
  A probe that exits with code 1, a video-only container, and an audio file.
\<close>

theorem probe_failure_kinds_witness:
  "analyzeAudio exProbeFailed
       = Rejected (Error ''FFprobe failed: notes.wav: Invalid data found when processing input'')
   \<and> analyzeAudio exProbeVideoOnly = Rejected (Error ''No audio stream found in file'')
   \<and> isMetadataParseFailure (analyzeAudio exProbeVideoOnly)
   \<and> \<not> wellFormedWithAudio (parsedOutput exProbeVideoOnly)
   \<and> (\<exists>md. analyzeAudio exProbeGood = Resolved md \<and> meta_fileSize md = 288044)"
  using probe_failure_kinds [of exProbeFailed]
    probe_failure_kinds [of exProbeVideoOnly
      "[(''streams'', JArr [JObj [(''codec_type'', JStr ''video'')]]),
        (''format'', JObj [(''format_name'', JStr ''mp4'')])]"
      "[JObj [(''codec_type'', JStr ''video'')]]" 42]
    probe_failure_kinds [of exProbeGood _ _ 288044 exProbeAudio]
  by (simp add: probe_eval)

section \<open>Falsy gain and pan\<close>



end
